theory Spec2Isabelle
  imports Main "HOL-Library.Word"
begin

text \<open>
  A model of the STOX services: the response parser and the two request handlers of the
  SEO service (\<open>stox-seo-service/grpc_server.py\<close>), the agent's tool
  (\<open>stox-agent/multi_tool_agent\<close>), and the image service
  (\<open>stox-image-service/src/procces_image.py\<close> with its gRPC servicer). Functions are
  total: an exception is the \<open>Inl\<close> side of a sum, and what a function reaches outside
  the process (HTTP, the model, the file system, the RPC) is a parameter.
\<close>

section \<open>Python values shared by the three services\<close>

text \<open>
  A Python \<open>str\<close> is a sequence of Unicode code points: \<open>len\<close>, slicing and indexing count
  code points. A text is therefore a list of code points, and \<open>str\<close> turns an ASCII
  literal into one. \<open>bytes\<close> are lists of 8-bit words.
\<close>

type_synonym pystr = "nat list"
type_synonym bytes = "8 word list"

definition str :: "string \<Rightarrow> pystr" where
  "str s = map of_char s"

text \<open>The gRPC status codes the servicers pass to \<open>context.abort\<close>.\<close>

datatype status_code = INVALID_ARGUMENT | INTERNAL

text \<open>
  Exceptions. \<open>context.abort(code, details)\<close> of grpc records \<open>code\<close> and \<open>details\<close> on
  the call and then raises a bare \<open>Exception()\<close> to unwind the handler: \<open>Aborted\<close>
  carries what was recorded; it is an \<open>Exception\<close> but neither a
  \<open>requests.RequestException\<close> nor a \<open>json.JSONDecodeError\<close>, and its \<open>str\<close> is empty.
  The other constructors carry the message \<open>str(e)\<close> gives.
\<close>

datatype exn =
    Aborted status_code pystr
  | RequestException pystr
  | AttributeError pystr
  | TypeError pystr
  | IndexError pystr
  | OSError pystr
  | ValueError pystr
  | RecursionError pystr
  | RpcError pystr
  | OtherException pystr

fun str_exn :: "exn \<Rightarrow> pystr" where
  "str_exn (Aborted c d) = []"
| "str_exn (RequestException m) = m"
| "str_exn (AttributeError m) = m"
| "str_exn (TypeError m) = m"
| "str_exn (IndexError m) = m"
| "str_exn (OSError m) = m"
| "str_exn (ValueError m) = m"
| "str_exn (RecursionError m) = m"
| "str_exn (RpcError m) = m"
| "str_exn (OtherException m) = m"

fun is_RequestException :: "exn \<Rightarrow> bool" where
  "is_RequestException (RequestException m) = True"
| "is_RequestException e = False"

section \<open>The \<open>str\<close> methods the parser uses\<close>

text \<open>
  \<open>str.isspace\<close>: the code points \<open>str.strip()\<close> removes and the regular expression
  \<open>\s\<close> matches on a \<open>str\<close> pattern.
\<close>

definition is_space :: "nat \<Rightarrow> bool" where
  "is_space c \<longleftrightarrow>
     (9 \<le> c \<and> c \<le> 13) \<or> (28 \<le> c \<and> c \<le> 32) \<or> c = 133 \<or> c = 160 \<or> c = 5760
     \<or> (8192 \<le> c \<and> c \<le> 8202) \<or> c = 8232 \<or> c = 8233 \<or> c = 8239 \<or> c = 8287
     \<or> c = 12288"

definition strip_chars :: "(nat \<Rightarrow> bool) \<Rightarrow> pystr \<Rightarrow> pystr" where
  "strip_chars P s = rev (dropWhile P (rev (dropWhile P s)))"

definition strip :: "pystr \<Rightarrow> pystr" where
  "strip s = strip_chars is_space s"

text \<open>
  \<open>str.lower\<close>, code point by code point. The program uses the result only to ask
  whether a keyword occurs in a lowered line and whether a lowered file extension is a
  supported format, so the table holds the code points whose lower-case form holds an
  ASCII character or a character of a keyword: the capital Latin letters, C with cedilla
  (199), I with dot above (304, lowered to \<open>i\<close> and a combining dot, 775), S with
  cedilla (350) and the Kelvin sign (8490). Every other code point is kept as it is:
  neither it nor its lower-case form is an ASCII character or a character of a keyword.
\<close>

definition ascii_lower :: "nat \<Rightarrow> nat" where
  "ascii_lower c = (if 65 \<le> c \<and> c \<le> 90 then c + 32 else c)"

definition lower_cp :: "nat \<Rightarrow> pystr" where
  "lower_cp c =
     (if 65 \<le> c \<and> c \<le> 90 then [c + 32]
      else if c = 199 then [231]
      else if c = 304 then [105, 775]
      else if c = 350 then [351]
      else if c = 8490 then [107]
      else [c])"

definition lower :: "pystr \<Rightarrow> pystr" where
  "lower s = concat (map lower_cp s)"

text \<open>
  A literal of a pattern compiled with IGNORECASE, for a pattern character in the ASCII
  range, as all characters of the parser's patterns are: it matches the character in
  either case, and besides \<open>i\<close> matches I with dot above (304) and dotless i (305), \<open>s\<close>
  matches long s (383), and \<open>k\<close> matches the Kelvin sign (8490).
\<close>

definition ignorecase_eq :: "nat \<Rightarrow> nat \<Rightarrow> bool" where
  "ignorecase_eq c x \<longleftrightarrow>
     ascii_lower x = ascii_lower c
     \<or> (ascii_lower c = 105 \<and> (x = 304 \<or> x = 305))
     \<or> (ascii_lower c = 115 \<and> x = 383)
     \<or> (ascii_lower c = 107 \<and> x = 8490)"

text \<open>\<open>f"{n}"\<close> for a natural number: its decimal digits.\<close>

fun decimal :: "nat \<Rightarrow> pystr" where
  "decimal n = (if n < 10 then [48 + n] else decimal (n div 10) @ [48 + n mod 10])"

declare decimal.simps [simp del]

definition startswith :: "pystr \<Rightarrow> pystr \<Rightarrow> bool" where
  "startswith s p \<longleftrightarrow> take (length p) s = p"

text \<open>\<open>needle in hay\<close> on strings: \<open>needle\<close> occurs as a contiguous substring.\<close>

fun contains :: "pystr \<Rightarrow> pystr \<Rightarrow> bool" where
  "contains needle [] = (needle = [])"
| "contains needle (x # xs) = (startswith (x # xs) needle \<or> contains needle xs)"

text \<open>\<open>s.split(sep)\<close> for a one-character separator: every separator ends a piece.\<close>

fun split_acc :: "nat \<Rightarrow> pystr \<Rightarrow> pystr \<Rightarrow> pystr list" where
  "split_acc sep cur [] = [rev cur]"
| "split_acc sep cur (x # xs) =
     (if x = sep then rev cur # split_acc sep [] xs else split_acc sep (x # cur) xs)"

definition split :: "nat \<Rightarrow> pystr \<Rightarrow> pystr list" where
  "split sep s = split_acc sep [] s"

text \<open>\<open>s.split(sep, 1)\<close>: at most one split, at the first separator.\<close>

definition split1 :: "nat \<Rightarrow> pystr \<Rightarrow> pystr list" where
  "split1 sep s =
     (if sep \<in> set s then [takeWhile (\<lambda>c. c \<noteq> sep) s, tl (dropWhile (\<lambda>c. c \<noteq> sep) s)]
      else [s])"

section \<open>The fragment of \<open>re\<close> the parser's patterns are written in\<close>

text \<open>
  The patterns are sequences of single-character items: a literal, \<open>.\<close> under DOTALL
  (any code point), \<open>\s\<close>, a negated one-character class \<open>[^c]\<close>; an item is taken once,
  lazily any number of times (\<open>*?\<close>), or greedily any number of times (\<open>*\<close>). The one
  capturing group of each pattern is \<open>([^c]+)\<close>, one captured item followed by a captured
  greedy repetition.
\<close>

datatype cls = Ch nat | AnyCh | Space | NotCh nat

datatype item = One cls | Lazy cls | Greedy cls | CapOne cls | CapGreedy cls

type_synonym regex = "item list"

fun cls_ok :: "bool \<Rightarrow> cls \<Rightarrow> nat \<Rightarrow> bool" where
  "cls_ok ic (Ch c) x = (if ic then ignorecase_eq c x else x = c)"
| "cls_ok ic AnyCh x = True"
| "cls_ok ic Space x = is_space x"
| "cls_ok ic (NotCh c) x = (if ic then \<not> ignorecase_eq c x else x \<noteq> c)"

definition lit :: "string \<Rightarrow> regex" where
  "lit s = map (\<lambda>c. One (Ch (of_char c))) s"

text \<open>
  Matching at the start of the input, with the backtracking order of \<open>re\<close>: a lazy
  repetition first tries to stop, a greedy one first tries to go on. The result is the
  matched text, group 1 and the rest of the input; \<open>ic\<close> is the IGNORECASE flag.
\<close>

function (sequential) rmatch :: "bool \<Rightarrow> regex \<Rightarrow> pystr \<Rightarrow> (pystr \<times> pystr \<times> pystr) option" where
  "rmatch ic [] s = Some ([], [], s)"
| "rmatch ic (One c # ps) [] = None"
| "rmatch ic (One c # ps) (x # xs) =
     (if cls_ok ic c x
      then (case rmatch ic ps xs of None \<Rightarrow> None | Some (m, g, r) \<Rightarrow> Some (x # m, g, r))
      else None)"
| "rmatch ic (CapOne c # ps) [] = None"
| "rmatch ic (CapOne c # ps) (x # xs) =
     (if cls_ok ic c x
      then (case rmatch ic ps xs of None \<Rightarrow> None | Some (m, g, r) \<Rightarrow> Some (x # m, x # g, r))
      else None)"
| "rmatch ic (Lazy c # ps) [] = rmatch ic ps []"
| "rmatch ic (Lazy c # ps) (x # xs) =
     (case rmatch ic ps (x # xs) of
        Some res \<Rightarrow> Some res
      | None \<Rightarrow>
          (if cls_ok ic c x
           then (case rmatch ic (Lazy c # ps) xs of
                   None \<Rightarrow> None | Some (m, g, r) \<Rightarrow> Some (x # m, g, r))
           else None))"
| "rmatch ic (Greedy c # ps) [] = rmatch ic ps []"
| "rmatch ic (Greedy c # ps) (x # xs) =
     (if cls_ok ic c x
      then (case rmatch ic (Greedy c # ps) xs of
              Some (m, g, r) \<Rightarrow> Some (x # m, g, r)
            | None \<Rightarrow> rmatch ic ps (x # xs))
      else rmatch ic ps (x # xs))"
| "rmatch ic (CapGreedy c # ps) [] = rmatch ic ps []"
| "rmatch ic (CapGreedy c # ps) (x # xs) =
     (if cls_ok ic c x
      then (case rmatch ic (CapGreedy c # ps) xs of
              Some (m, g, r) \<Rightarrow> Some (x # m, x # g, r)
            | None \<Rightarrow> rmatch ic ps (x # xs))
      else rmatch ic ps (x # xs))"
  by pat_completeness auto
termination
  by (relation "measure (\<lambda>(ic, ps, s). length ps + length s)") auto

text \<open>\<open>re.search\<close>: the match at the leftmost position that has one; its group 1.\<close>

fun re_search :: "bool \<Rightarrow> regex \<Rightarrow> pystr \<Rightarrow> pystr option" where
  "re_search ic ps [] = (case rmatch ic ps [] of None \<Rightarrow> None | Some (m, g, r) \<Rightarrow> Some g)"
| "re_search ic ps (x # xs) =
     (case rmatch ic ps (x # xs) of
        Some (m, g, r) \<Rightarrow> Some g
      | None \<Rightarrow> re_search ic ps xs)"

text \<open>
  \<open>re.findall\<close> for a pattern without groups: the matched texts, leftmost first, not
  overlapping. After a match of \<open>n\<close> code points the scan goes on \<open>n\<close> code points
  further (one further after an empty match).
\<close>

fun re_findall :: "bool \<Rightarrow> regex \<Rightarrow> pystr \<Rightarrow> pystr list" where
  "re_findall ic ps [] = (case rmatch ic ps [] of None \<Rightarrow> [] | Some (m, g, r) \<Rightarrow> [m])"
| "re_findall ic ps (x # xs) =
     (case rmatch ic ps (x # xs) of
        None \<Rightarrow> re_findall ic ps xs
      | Some (m, g, r) \<Rightarrow> m # re_findall ic ps (drop (length m - 1) xs))"

section \<open>\<open>json.loads\<close>\<close>

text \<open>
  The decoder of the standard library, as the parser calls it (strict mode, default
  hooks). It ends in one of three ways: with the value; with \<open>json.JSONDecodeError\<close>,
  for every input that is not JSON; or with another exception, which the parser's
  \<open>except json.JSONDecodeError\<close> does not catch: \<open>ValueError\<close> for an integer of more
  than 4300 digits (the interpreter's limit for the conversion of a string to \<open>int\<close>),
  and \<open>RecursionError\<close> when objects and arrays are nested deeper than the interpreter
  allows. How many nested objects and arrays the interpreter still allows when
  \<open>json.loads\<close> is called depends on the call stack and is a parameter, \<open>budget\<close>.
  A number keeps its lexeme: the parser only ever asks whether a value is a string. An
  object keeps its members in the order read; \<open>dict_get\<close> looks a key up as the resulting
  \<open>dict\<close> does, the last member with that key winning.
\<close>

datatype json =
    JString pystr
  | JNumber pystr
  | JBool bool
  | JNull
  | JArray "json list"
  | JObject "(pystr \<times> json) list"

datatype json_raise = Int_max_str_digits nat | Recursion_object | Recursion_array

datatype 'a decoded = Decoded 'a | JSONDecodeError | Raised json_raise

fun exn_of_raise :: "json_raise \<Rightarrow> exn" where
  "exn_of_raise (Int_max_str_digits n) =
     ValueError (str ''Exceeds the limit (4300 digits) for integer string conversion: value has ''
                 @ decimal n
                 @ str '' digits; use sys.set_int_max_str_digits() to increase the limit'')"
| "exn_of_raise Recursion_object =
     RecursionError
       (str ''maximum recursion depth exceeded while decoding a JSON object from a unicode string'')"
| "exn_of_raise Recursion_array =
     RecursionError
       (str ''maximum recursion depth exceeded while decoding a JSON array from a unicode string'')"

definition INT_MAX_STR_DIGITS :: nat where
  "INT_MAX_STR_DIGITS = 4300"

definition json_ws :: "pystr \<Rightarrow> pystr" where
  "json_ws s = dropWhile (\<lambda>c. c = 32 \<or> c = 9 \<or> c = 10 \<or> c = 13) s"

definition is_digit :: "nat \<Rightarrow> bool" where
  "is_digit c \<longleftrightarrow> 48 \<le> c \<and> c \<le> 57"

definition hex_digit :: "nat \<Rightarrow> nat option" where
  "hex_digit c =
     (if 48 \<le> c \<and> c \<le> 57 then Some (c - 48)
      else if 97 \<le> c \<and> c \<le> 102 then Some (c - 87)
      else if 65 \<le> c \<and> c \<le> 70 then Some (c - 55)
      else None)"

text \<open>The four hexadecimal digits of a \<open>\uXXXX\<close> escape.\<close>

definition decode_uXXXX :: "pystr \<Rightarrow> nat option" where
  "decode_uXXXX s =
     (case map hex_digit (take 4 s) of
        [Some a, Some b, Some c, Some d] \<Rightarrow> Some (((a * 16 + b) * 16 + c) * 16 + d)
      | _ \<Rightarrow> None)"

definition backslash :: "nat \<Rightarrow> nat option" where
  "backslash c =
     (if c = 34 \<or> c = 92 \<or> c = 47 then Some c
      else if c = 98 then Some 8
      else if c = 102 then Some 12
      else if c = 110 then Some 10
      else if c = 114 then Some 13
      else if c = 116 then Some 9
      else None)"

definition cons_result :: "nat \<Rightarrow> (pystr \<times> pystr) option \<Rightarrow> (pystr \<times> pystr) option" where
  "cons_result c r = (case r of None \<Rightarrow> None | Some (v, rest) \<Rightarrow> Some (c # v, rest))"

text \<open>
  \<open>scanstring\<close>, from just after the opening quote: the decoded string and the input after
  the closing quote. A high surrogate escape followed by a low surrogate escape is joined
  into one code point.
\<close>

fun scanstring :: "pystr \<Rightarrow> (pystr \<times> pystr) option" where
  "scanstring [] = None"
| "scanstring (c # cs) =
     (if c = 34 then Some ([], cs)
      else if c = 92 then
        (case cs of
           [] \<Rightarrow> None
         | e # es \<Rightarrow>
             if e = 117 then
               (case decode_uXXXX es of
                  None \<Rightarrow> None
                | Some uni \<Rightarrow>
                    if 55296 \<le> uni \<and> uni \<le> 56319 \<and> 6 < length (drop 4 es)
                       \<and> take 2 (drop 4 es) = [92, 117]
                    then (case decode_uXXXX (drop 6 es) of
                            None \<Rightarrow> None
                          | Some uni2 \<Rightarrow>
                              if 56320 \<le> uni2 \<and> uni2 \<le> 57343
                              then cons_result (65536 + ((uni - 55296) * 1024 + (uni2 - 56320)))
                                     (scanstring (drop 10 es))
                              else cons_result uni (scanstring (drop 4 es)))
                    else cons_result uni (scanstring (drop 4 es)))
             else
               (case backslash e of
                  None \<Rightarrow> None
                | Some ch \<Rightarrow> cons_result ch (scanstring es)))
      else if c \<le> 31 then None
      else cons_result c (scanstring cs))"

text \<open>
  The number lexeme at the start of the input:
  \<open>-?(0|[1-9][0-9]*)(\.[0-9]+)?([eE][-+]?[0-9]+)?\<close>.
\<close>

definition match_int :: "pystr \<Rightarrow> (pystr \<times> pystr) option" where
  "match_int s =
     (case s of
        [] \<Rightarrow> None
      | d # r \<Rightarrow>
          if d = 48 then Some ([d], r)
          else if 49 \<le> d \<and> d \<le> 57 then Some (d # takeWhile is_digit r, dropWhile is_digit r)
          else None)"

definition match_frac :: "pystr \<Rightarrow> pystr \<times> pystr" where
  "match_frac s =
     (case s of
        p # d # r \<Rightarrow>
          if p = 46 \<and> is_digit d
          then (p # d # takeWhile is_digit r, dropWhile is_digit r) else ([], s)
      | _ \<Rightarrow> ([], s))"

definition match_exp :: "pystr \<Rightarrow> pystr \<times> pystr" where
  "match_exp s =
     (case s of
        e # r \<Rightarrow>
          if e = 101 \<or> e = 69 then
            (case r of
               g # d # r' \<Rightarrow>
                 if (g = 45 \<or> g = 43) \<and> is_digit d
                 then (e # g # d # takeWhile is_digit r', dropWhile is_digit r')
                 else if is_digit g
                 then (e # g # takeWhile is_digit (d # r'), dropWhile is_digit (d # r'))
                 else ([], s)
             | [g] \<Rightarrow> if is_digit g then ([e, g], []) else ([], s)
             | [] \<Rightarrow> ([], s))
          else ([], s)
      | [] \<Rightarrow> ([], s))"

definition match_number :: "pystr \<Rightarrow> (pystr \<times> pystr) option" where
  "match_number s =
     (let (sign, s1) = (case s of c # r \<Rightarrow> if c = 45 then ([c], r) else ([], s) | [] \<Rightarrow> ([], s))
      in case match_int s1 of
           None \<Rightarrow> None
         | Some (i, s2) \<Rightarrow>
             (let (f, s3) = match_frac s2; (e, s4) = match_exp s3
              in Some (sign @ i @ f @ e, s4)))"

text \<open>
  The digits of an integer lexeme; \<open>None\<close> for the lexeme of a float (one with a
  fraction, an exponent, or one of \<open>NaN\<close>, \<open>Infinity\<close>, \<open>-Infinity\<close>).
\<close>

definition int_digits :: "pystr \<Rightarrow> pystr option" where
  "int_digits lexeme =
     (let ds = (case lexeme of [] \<Rightarrow> [] | c # r \<Rightarrow> if c = 45 then r else lexeme)
      in if list_all is_digit ds then Some ds else None)"

definition number_value :: "pystr \<Rightarrow> pystr \<Rightarrow> (json \<times> pystr) decoded" where
  "number_value lexeme r =
     (case int_digits lexeme of
        None \<Rightarrow> Decoded (JNumber lexeme, r)
      | Some ds \<Rightarrow>
          if length ds > INT_MAX_STR_DIGITS then Raised (Int_max_str_digits (length ds))
          else Decoded (JNumber lexeme, r))"

text \<open>
  The scanner. \<open>scan_once\<close> reads one value; \<open>json_members\<close> is the loop of
  \<open>JSONObject\<close>, entered just after the opening quote of a key; \<open>json_elements\<close> is the loop
  of \<open>JSONArray\<close>, entered at a value. The scanner enters an object or an array only
  while \<open>budget\<close> is not used up, and scans inside it with one less. The second argument
  is a device of the definition, not of the decoder: it bounds the chain of calls, each
  call gets one less than its caller, and \<open>json_loads\<close> starts it at twice the length of
  the input and two. A call of \<open>scan_once\<close> two below another has read at least one code
  point more, and a turn of a loop at least two, so it is never used up.
\<close>

fun scan_once :: "nat \<Rightarrow> nat \<Rightarrow> pystr \<Rightarrow> (json \<times> pystr) decoded"
  and json_members ::
    "nat \<Rightarrow> nat \<Rightarrow> (pystr \<times> json) list \<Rightarrow> pystr \<Rightarrow> (json \<times> pystr) decoded"
  and json_elements :: "nat \<Rightarrow> nat \<Rightarrow> json list \<Rightarrow> pystr \<Rightarrow> (json \<times> pystr) decoded" where
  "scan_once budget 0 s = JSONDecodeError"
| "scan_once budget (Suc n) [] = JSONDecodeError"
| "scan_once budget (Suc n) (c # cs) =
     (if c = 34 then
        (case scanstring cs of
           None \<Rightarrow> JSONDecodeError
         | Some (v, r) \<Rightarrow> Decoded (JString v, r))
      else if c = 123 then
        (if budget = 0 then Raised Recursion_object
         else
           (case json_ws cs of
              [] \<Rightarrow> JSONDecodeError
            | d # r \<Rightarrow>
                if d = 125 then Decoded (JObject [], r)
                else if d = 34 then json_members (budget - 1) n [] r
                else JSONDecodeError))
      else if c = 91 then
        (if budget = 0 then Raised Recursion_array
         else
           (case json_ws cs of
              [] \<Rightarrow> JSONDecodeError
            | d # r \<Rightarrow>
                if d = 93 then Decoded (JArray [], r)
                else json_elements (budget - 1) n [] (d # r)))
      else if startswith (c # cs) (str ''null'') then Decoded (JNull, drop 4 (c # cs))
      else if startswith (c # cs) (str ''true'') then Decoded (JBool True, drop 4 (c # cs))
      else if startswith (c # cs) (str ''false'') then Decoded (JBool False, drop 5 (c # cs))
      else
        (case match_number (c # cs) of
           Some (lexeme, r) \<Rightarrow> number_value lexeme r
         | None \<Rightarrow>
             if startswith (c # cs) (str ''NaN'')
             then Decoded (JNumber (str ''NaN''), drop 3 (c # cs))
             else if startswith (c # cs) (str ''Infinity'')
             then Decoded (JNumber (str ''Infinity''), drop 8 (c # cs))
             else if startswith (c # cs) (str ''-Infinity'')
             then Decoded (JNumber (str ''-Infinity''), drop 9 (c # cs))
             else JSONDecodeError))"
| "json_members budget 0 pairs s = JSONDecodeError"
| "json_members budget (Suc n) pairs s =
     (case scanstring s of
        None \<Rightarrow> JSONDecodeError
      | Some (key, r) \<Rightarrow>
          (case json_ws r of
             [] \<Rightarrow> JSONDecodeError
           | colon # r2 \<Rightarrow>
               if colon \<noteq> 58 then JSONDecodeError
               else
                 (case scan_once budget n (json_ws r2) of
                    JSONDecodeError \<Rightarrow> JSONDecodeError
                  | Raised e \<Rightarrow> Raised e
                  | Decoded (v, r4) \<Rightarrow>
                      (case json_ws r4 of
                         [] \<Rightarrow> JSONDecodeError
                       | d # r6 \<Rightarrow>
                           if d = 125 then Decoded (JObject (pairs @ [(key, v)]), r6)
                           else if d = 44 then
                             (case json_ws r6 of
                                [] \<Rightarrow> JSONDecodeError
                              | q # r8 \<Rightarrow>
                                  if q = 34 then json_members budget n (pairs @ [(key, v)]) r8
                                  else JSONDecodeError)
                           else JSONDecodeError))))"
| "json_elements budget 0 acc s = JSONDecodeError"
| "json_elements budget (Suc n) acc s =
     (case scan_once budget n s of
        JSONDecodeError \<Rightarrow> JSONDecodeError
      | Raised e \<Rightarrow> Raised e
      | Decoded (v, r) \<Rightarrow>
          (case json_ws r of
             [] \<Rightarrow> JSONDecodeError
           | d # r2 \<Rightarrow>
               if d = 93 then Decoded (JArray (acc @ [v]), r2)
               else if d = 44 then json_elements budget n (acc @ [v]) (json_ws r2)
               else JSONDecodeError))"

definition json_loads :: "nat \<Rightarrow> pystr \<Rightarrow> json decoded" where
  "json_loads budget s =
     (case scan_once budget (Suc (Suc (length s + length s))) (json_ws s) of
        JSONDecodeError \<Rightarrow> JSONDecodeError
      | Raised e \<Rightarrow> Raised e
      | Decoded (v, r) \<Rightarrow> if json_ws r = [] then Decoded v else JSONDecodeError)"

definition dict_get :: "(pystr \<times> json) list \<Rightarrow> pystr \<Rightarrow> json option" where
  "dict_get pairs k = map_of (rev pairs) k"

section \<open>The SEO service: \<open>_parse_gemini_response\<close>\<close>

text \<open>
  \<open>result.get(key, "").strip()\<close>: the value has to be a \<open>str\<close>; any other JSON value
  has no \<open>strip\<close> and the call raises \<open>AttributeError\<close>, which the \<open>except\<close> clause of
  the loop (for \<open>json.JSONDecodeError\<close> only) does not catch.
\<close>

fun type_name :: "json \<Rightarrow> pystr" where
  "type_name (JString s) = str ''str''"
| "type_name (JNumber l) = (if int_digits l \<noteq> None then str ''int'' else str ''float'')"
| "type_name (JBool b) = str ''bool''"
| "type_name JNull = str ''NoneType''"
| "type_name (JArray vs) = str ''list''"
| "type_name (JObject ps) = str ''dict''"

definition no_attribute :: "json \<Rightarrow> string \<Rightarrow> exn" where
  "no_attribute v a =
     AttributeError (str [CHR 0x27] @ type_name v @ str (CHR 0x27 # '' object has no attribute '')
                     @ str [CHR 0x27] @ str a @ str [CHR 0x27])"

fun get_strip :: "json \<Rightarrow> string \<Rightarrow> exn + pystr" where
  "get_strip (JObject pairs) key =
     (case dict_get pairs (str key) of
        None \<Rightarrow> Inr (strip [])
      | Some (JString s) \<Rightarrow> Inr (strip s)
      | Some v \<Rightarrow> Inl (no_attribute v ''strip''))"
| "get_strip v key = Inl (no_attribute v ''get'')"

text \<open>The pattern \<open>\{.*?"title".*?"description".*?\}\<close>, compiled with DOTALL.\<close>

definition json_pattern :: regex where
  \<open>json_pattern =
     lit ''{'' @ [Lazy AnyCh] @ lit ''"title"'' @ [Lazy AnyCh] @ lit ''"description"''
     @ [Lazy AnyCh] @ lit ''}''\<close>

text \<open>
  The loop over \<open>json_matches\<close>. \<open>Some\<close> is what the loop left the function with (the
  \<open>return\<close>, or the exception that escaped), \<open>None\<close> that the loop ran to its end. Only
  \<open>json.JSONDecodeError\<close> is caught and lets the loop go on.
\<close>

fun json_strategy :: "nat \<Rightarrow> pystr list \<Rightarrow> (exn + pystr \<times> pystr) option" where
  "json_strategy budget [] = None"
| "json_strategy budget (json_match # rest) =
     (case json_loads budget json_match of
        JSONDecodeError \<Rightarrow> json_strategy budget rest
      | Raised e \<Rightarrow> Some (Inl (exn_of_raise e))
      | Decoded result \<Rightarrow>
          (case get_strip result ''title'' of
             Inl e \<Rightarrow> Some (Inl e)
           | Inr title \<Rightarrow>
               (case get_strip result ''description'' of
                  Inl e \<Rightarrow> Some (Inl e)
                | Inr description \<Rightarrow>
                    if title \<noteq> [] \<and> description \<noteq> [] then Some (Inr (title, description))
                    else json_strategy budget rest)))"

text \<open>
  The two lists of patterns, each \<open>key\<close>, optional white space and a colon, then the value
  between double or single quotes: \<open>"title"\s*:\s*"([^"]+)"\<close>, \<open>"title"\s*:\s*'([^']+)'\<close>,
  \<open>title:\s*"([^"]+)"\<close>, \<open>title:\s*'([^']+)'\<close>, and the same for \<open>description\<close>.
\<close>

definition quoted :: "nat \<Rightarrow> regex" where
  "quoted q = [One (Ch q), CapOne (NotCh q), CapGreedy (NotCh q), One (Ch q)]"

definition title_patterns :: "regex list" where
  \<open>title_patterns =
     [lit ''"title"'' @ [Greedy Space] @ lit '':'' @ [Greedy Space] @ quoted 34,
      lit ''"title"'' @ [Greedy Space] @ lit '':'' @ [Greedy Space] @ quoted 39,
      lit ''title:'' @ [Greedy Space] @ quoted 34,
      lit ''title:'' @ [Greedy Space] @ quoted 39]\<close>

definition description_patterns :: "regex list" where
  \<open>description_patterns =
     [lit ''"description"'' @ [Greedy Space] @ lit '':'' @ [Greedy Space] @ quoted 34,
      lit ''"description"'' @ [Greedy Space] @ lit '':'' @ [Greedy Space] @ quoted 39,
      lit ''description:'' @ [Greedy Space] @ quoted 34,
      lit ''description:'' @ [Greedy Space] @ quoted 39]\<close>

text \<open>
  \<open>for pattern in patterns: match = re.search(pattern, response_text, re.IGNORECASE |
  re.DOTALL); if match: value = match.group(1).strip(); break\<close>, the value starting
  empty.
\<close>

fun first_group :: "regex list \<Rightarrow> pystr \<Rightarrow> pystr" where
  "first_group [] response_text = []"
| "first_group (pattern # rest) response_text =
     (case re_search True pattern response_text of
        Some g \<Rightarrow> strip g
      | None \<Rightarrow> first_group rest response_text)"

text \<open>
  The keywords of the line scan: \<open>title\<close> and \<open>description\<close>, each with its Turkish
  word, written here by its code points (s with cedilla is 351, dotless i is 305, c with
  cedilla is 231).
\<close>

definition title_keywords :: "pystr list" where
  "title_keywords = [str ''title'', [98, 97, 351, 108, 305, 107]]"

definition description_keywords :: "pystr list" where
  "description_keywords = [str ''description'', [97, 231, 305, 107, 108, 97, 109, 97]]"

definition any_keyword :: "pystr list \<Rightarrow> pystr \<Rightarrow> bool" where
  "any_keyword keywords line \<longleftrightarrow> list_ex (\<lambda>keyword. contains keyword (lower line)) keywords"

text \<open>\<open>colon_split[1].strip().strip('",\'')\<close>\<close>

definition after_colon :: "pystr list \<Rightarrow> pystr" where
  "after_colon colon_split =
     strip_chars (\<lambda>c. c = 34 \<or> c = 44 \<or> c = 39) (strip (colon_split ! 1))"

fun line_scan :: "pystr list \<Rightarrow> pystr \<times> pystr \<Rightarrow> pystr \<times> pystr" where
  "line_scan [] (title, description) = (title, description)"
| "line_scan (l # lines) (title, description) =
     (let line = strip l in
      if title = [] \<and> any_keyword title_keywords line then
        (let colon_split = split1 58 line in
         if length colon_split > 1 then line_scan lines (after_colon colon_split, description)
         else line_scan lines (title, description))
      else if description = [] \<and> any_keyword description_keywords line then
        (let colon_split = split1 58 line in
         if length colon_split > 1 then line_scan lines (title, after_colon colon_split)
         else line_scan lines (title, description))
      else line_scan lines (title, description))"

definition yes_no :: "pystr \<Rightarrow> pystr" where
  "yes_no v = (if v \<noteq> [] then str ''Yes'' else str ''No'')"

definition debug_response :: "pystr \<Rightarrow> pystr" where
  "debug_response response_text =
     (if length response_text > 500 then take 500 response_text @ str ''...''
      else response_text)"

definition parse_failure :: "pystr \<Rightarrow> pystr \<Rightarrow> pystr \<Rightarrow> exn" where
  "parse_failure title description response_text =
     Aborted INTERNAL
       (str ''Could not parse Gemini response. Found title: '' @ yes_no title
        @ str '', Found description: '' @ yes_no description
        @ str ''. Response preview: '' @ debug_response response_text)"

definition parse_gemini_response :: "nat \<Rightarrow> pystr \<Rightarrow> exn + pystr \<times> pystr" where
  "parse_gemini_response budget response_text =
     (case json_strategy budget (re_findall False json_pattern response_text) of
        Some outcome \<Rightarrow> outcome
      | None \<Rightarrow>
          (let title = first_group title_patterns response_text;
               description = first_group description_patterns response_text;
               (title, description) =
                 (if title = [] \<or> description = []
                  then line_scan (split 10 response_text) (title, description)
                  else (title, description))
           in if title = [] \<or> description = []
              then Inl (parse_failure title description response_text)
              else Inr (title, description)))"

section \<open>The SEO service: the two request handlers\<close>

text \<open>
  What the handlers reach outside the process is a parameter: \<open>requests_get\<close> is
  \<open>requests.get(image_url, timeout=30)\<close> followed by \<open>raise_for_status()\<close>; \<open>image_open\<close>
  is \<open>Image.open\<close> with the conversion to RGB and gives the exception it raised, if any;
  \<open>generate_content_stream\<close> is the model's stream for the image and its content type:
  the \<open>text\<close> of each chunk (\<open>None\<close> for a chunk without text), and the exception that ended
  the stream, if one did; \<open>recursion_budget\<close> is the depth of nesting the interpreter
  allows \<open>json.loads\<close> in the handler. Each handler also gives the outside calls it made,
  in order.
\<close>

record http_response =
  content_type_header :: "pystr option"
  content :: bytes

record seo_env =
  requests_get :: "pystr \<Rightarrow> exn + http_response"
  image_open :: "bytes \<Rightarrow> exn option"
  generate_content_stream :: "bytes \<Rightarrow> pystr \<Rightarrow> pystr option list \<times> exn option"
  recursion_budget :: nat

datatype call = Call_requests_get pystr | Call_image_open | Call_generate_content_stream

record image_response =
  title :: pystr
  description :: pystr

record image_request =
  filename :: pystr
  content_type :: pystr
  request_image :: bytes

definition SUPPORTED_FORMATS :: "pystr list" where
  "SUPPORTED_FORMATS = map str [''jpeg'', ''jpg'', ''png'', ''gif'', ''bmp'', ''webp'']"

definition validate_image :: "pystr \<Rightarrow> pystr \<Rightarrow> bool" where
  "validate_image file_name ctype =
     (if ctype = [] \<or> \<not> startswith ctype (str ''image/'') then False
      else if file_name \<noteq> [] then last (split 46 (lower file_name)) \<in> set SUPPORTED_FORMATS
      else False)"

definition MAX_IMAGE_BYTES :: nat where
  "MAX_IMAGE_BYTES = 10 * 1024 * 1024"

text \<open>
  \<open>response_text = ""; for chunk in stream: response_text += chunk.text\<close>. Adding \<open>None\<close>
  to a \<open>str\<close> raises \<open>TypeError\<close>; an exception of the stream itself comes after the chunks
  it delivered.
\<close>

fun add_chunks :: "pystr \<Rightarrow> pystr option list \<Rightarrow> exn + pystr" where
  "add_chunks response_text [] = Inr response_text"
| \<open>add_chunks response_text (None # chunks) =
     Inl (TypeError (str ''can only concatenate str (not "NoneType") to str''))\<close>
| "add_chunks response_text (Some t # chunks) = add_chunks (response_text @ t) chunks"

definition read_stream :: "pystr option list \<times> exn option \<Rightarrow> exn + pystr" where
  "read_stream stream =
     (case add_chunks [] (fst stream) of
        Inl e \<Rightarrow> Inl e
      | Inr response_text \<Rightarrow>
          (case snd stream of Some e \<Rightarrow> Inl e | None \<Rightarrow> Inr response_text))"

definition to_response :: "exn + pystr \<times> pystr \<Rightarrow> exn + image_response" where
  "to_response r =
     (case r of
        Inl e \<Rightarrow> Inl e
      | Inr (t, d) \<Rightarrow> Inr \<lparr>title = t, description = d\<rparr>)"

definition GenerateFromImage :: "seo_env \<Rightarrow> image_request \<Rightarrow> (exn + image_response) \<times> call list" where
  "GenerateFromImage env request =
     (if \<not> validate_image (filename request) (content_type request)
      then (Inl (Aborted INVALID_ARGUMENT
                   (str ''Ge'' @ [231] @ str ''ersiz resim format'' @ [305] @ str ''.'')), [])
      else
        (let image_bytes = request_image request in
         if length image_bytes > MAX_IMAGE_BYTES
         then (Inl (Aborted INVALID_ARGUMENT
                      (str ''Resim dosyas'' @ [305, 32, 231] @ str ''ok b'' @ [252, 121, 252, 107]
                       @ str ''. Maksimum 10MB desteklenir.'')), [])
         else
           (case image_open env image_bytes of
              Some e \<Rightarrow>
                (Inl (Aborted INVALID_ARGUMENT
                        (str ''Resim dosyas'' @ [305, 32, 105, 351] @ str ''lenirken hata: ''
                         @ str_exn e)), [Call_image_open])
            | None \<Rightarrow>
                (case read_stream (generate_content_stream env image_bytes (content_type request)) of
                   Inl e \<Rightarrow>
                     (Inl (Aborted INTERNAL (str ''Gemini API hatas'' @ [305] @ str '': '' @ str_exn e)),
                      [Call_image_open, Call_generate_content_stream])
                 | Inr response_text \<Rightarrow>
                     (to_response (parse_gemini_response (recursion_budget env) response_text),
                      [Call_image_open, Call_generate_content_stream])))))"

text \<open>
  The body of the \<open>try\<close> block of \<open>GenerateFromImageUrl\<close>, lines 105 to 126: what it
  raises, or the image and its content type.
\<close>

definition download_image :: "seo_env \<Rightarrow> pystr \<Rightarrow> (exn + bytes \<times> pystr) \<times> call list" where
  "download_image env image_url =
     (case requests_get env image_url of
        Inl e \<Rightarrow> (Inl e, [Call_requests_get image_url])
      | Inr response \<Rightarrow>
          (let ctype = (case content_type_header response of None \<Rightarrow> [] | Some v \<Rightarrow> v) in
           if \<not> startswith ctype (str ''image/'')
           then (Inl (Aborted INVALID_ARGUMENT
                        (str ''URL does not point to an image. Content-Type: '' @ ctype)),
                 [Call_requests_get image_url])
           else
             (let image_bytes = content response in
              if length image_bytes > MAX_IMAGE_BYTES
              then (Inl (Aborted INVALID_ARGUMENT
                           (str ''Image file is too large. Maximum 10MB supported.'')),
                    [Call_requests_get image_url])
              else
                (case image_open env image_bytes of
                   Some e \<Rightarrow>
                     (Inl (Aborted INVALID_ARGUMENT (str ''Error processing image: '' @ str_exn e)),
                      [Call_requests_get image_url, Call_image_open])
                 | None \<Rightarrow>
                     (Inr (image_bytes, ctype), [Call_requests_get image_url, Call_image_open])))))"

text \<open>
  The two \<open>except\<close> clauses of that \<open>try\<close>: \<open>except requests.RequestException\<close>, then
  \<open>except Exception\<close>. Both abort; the exception of an abort raised inside the block is
  an \<open>Exception\<close> too and reaches the second clause.
\<close>

definition download_except :: "exn \<Rightarrow> exn" where
  "download_except e =
     (if is_RequestException e
      then Aborted INVALID_ARGUMENT (str ''Error downloading image from URL: '' @ str_exn e)
      else Aborted INTERNAL (str ''Unexpected error: '' @ str_exn e))"

definition GenerateFromImageUrl :: "seo_env \<Rightarrow> pystr \<Rightarrow> (exn + image_response) \<times> call list" where
  "GenerateFromImageUrl env image_url =
     (if image_url = []
      then (Inl (Aborted INVALID_ARGUMENT (str ''Image URL is required'')), [])
      else
        (case download_image env image_url of
           (Inl e, calls) \<Rightarrow> (Inl (download_except e), calls)
         | (Inr (image_bytes, ctype), calls) \<Rightarrow>
             (case read_stream (generate_content_stream env image_bytes ctype) of
                Inl e \<Rightarrow>
                  (Inl (Aborted INTERNAL (str ''Gemini API error: '' @ str_exn e)),
                   calls @ [Call_generate_content_stream])
              | Inr response_text \<Rightarrow>
                  (to_response (parse_gemini_response (recursion_budget env) response_text),
                   calls @ [Call_generate_content_stream]))))"

section \<open>The agent's tool\<close>

text \<open>
  \<open>seo_analysis\<close> opens a channel and calls \<open>GenerateFromImageUrl\<close> on the stub; the call
  is a parameter, giving the response or the exception raised (a \<open>grpc.RpcError\<close> for every
  status other than OK). The function returns the response message itself, or a string
  in its \<open>except Exception\<close> clause. \<open>response_str\<close> is \<open>str\<close> of a response message.
\<close>

record agent_env =
  stub_GenerateFromImageUrl :: "pystr \<Rightarrow> exn + image_response"
  response_str :: "image_response \<Rightarrow> pystr"

datatype tool_value = Response image_response | Text pystr

definition seo_analysis :: "agent_env \<Rightarrow> pystr \<Rightarrow> exn + tool_value" where
  "seo_analysis env url =
     (case stub_GenerateFromImageUrl env url of
        Inr response \<Rightarrow> Inr (Response response)
      | Inl e \<Rightarrow> Inr (Text (str ''Error analyzing image URL: '' @ str_exn e)))"

definition str_tool_value :: "agent_env \<Rightarrow> tool_value \<Rightarrow> pystr" where
  "str_tool_value env v = (case v of Response r \<Rightarrow> response_str env r | Text s \<Rightarrow> s)"

text \<open>\<open>SEOAnalysisTool._run\<close>\<close>

definition SEOAnalysisTool_run :: "agent_env \<Rightarrow> pystr \<Rightarrow> exn + pystr" where
  "SEOAnalysisTool_run env url =
     (case seo_analysis env url of
        Inr result \<Rightarrow> Inr (str_tool_value env result)
      | Inl e \<Rightarrow> Inr (str ''Error during SEO analysis: '' @ str_exn e))"

section \<open>The image service\<close>

text \<open>
  A chunk of the model's stream, with the optional fields the loop tests:
  \<open>chunk.candidates\<close>, \<open>candidates[0].content\<close>, \<open>content.parts\<close>, and in a part
  \<open>inline_data\<close> (with \<open>data\<close> and \<open>mime_type\<close>) and \<open>text\<close>.
\<close>

record blob =
  blob_data :: "bytes option"
  blob_mime_type :: "pystr option"

record part =
  inline_data :: "blob option"
  part_text :: "pystr option"

record model_content =
  parts :: "part list option"

record candidate =
  candidate_content :: "model_content option"

record chunk =
  candidates :: "candidate list option"

text \<open>
  Outside the process: the model's stream for an image and its mime type (the chunks, and
  the exception that ended the stream, if one did), \<open>mimetypes.guess_extension\<close>, and the
  file write of \<open>save_binary_file\<close>, which gives the exception it raised, if any.
\<close>

record image_env =
  gemini_stream :: "bytes \<Rightarrow> pystr \<Rightarrow> chunk list \<times> exn option"
  guess_extension :: "pystr \<Rightarrow> pystr option"
  write_file :: "pystr \<Rightarrow> bytes \<Rightarrow> exn option"

text \<open>The attributes \<open>ImageService.__init__\<close> sets to \<open>None\<close>, and the object after it.\<close>

record image_service =
  processed_image_data :: "bytes option"
  mime_type :: "pystr option"
  message :: "pystr option"

definition ImageService_init :: image_service where
  "ImageService_init = \<lparr>processed_image_data = None, mime_type = None, message = None\<rparr>"

text \<open>\<open>part.inline_data and part.inline_data.data\<close>: the data, when there is some, and the
  mime type declared with it.\<close>

definition image_of :: "part \<Rightarrow> (bytes \<times> pystr option) option" where
  "image_of p =
     (case inline_data p of
        None \<Rightarrow> None
      | Some b \<Rightarrow>
          (case blob_data b of
             None \<Rightarrow> None
           | Some d \<Rightarrow> if d = [] then None else Some (d, blob_mime_type b)))"

text \<open>
  The inner loop over the parts of a chunk. The state is the locals \<open>file_index\<close> and
  \<open>response_text\<close> and the object \<open>self\<close>; the result is the exception that left the
  loop, if one did, and the state at that point. \<open>guess_extension\<close> of \<open>None\<close> raises
  \<open>AttributeError\<close>; an extension \<open>None\<close> is formatted as \<open>None\<close> in the file name.
\<close>

type_synonym loop_state = "nat \<times> pystr \<times> image_service"

fun process_parts :: "image_env \<Rightarrow> part list \<Rightarrow> loop_state \<Rightarrow> exn option \<times> loop_state" where
  "process_parts env [] st = (None, st)"
| "process_parts env (p # ps) (file_index, response_text, self) =
     (case image_of p of
        Some (data_buffer, declared) \<Rightarrow>
          (case declared of
             None \<Rightarrow>
               (Some (AttributeError
                        (str (CHR 0x27 # ''NoneType'') @ str (CHR 0x27 # '' object has no attribute '')
                         @ str (CHR 0x27 # ''lower'') @ str [CHR 0x27])),
                (file_index + 1, response_text, self))
           | Some m \<Rightarrow>
               (let file_name = str ''image_'' @ decimal file_index;
                    file_extension = (case guess_extension env m of
                                        None \<Rightarrow> str ''None'' | Some ext \<Rightarrow> ext)
                in case write_file env (file_name @ file_extension) data_buffer of
                     Some e \<Rightarrow> (Some e, (file_index + 1, response_text, self))
                   | None \<Rightarrow>
                       process_parts env ps
                         (file_index + 1, response_text,
                          self\<lparr>processed_image_data := Some data_buffer, mime_type := Some m\<rparr>)))
      | None \<Rightarrow>
          (case part_text p of
             None \<Rightarrow> process_parts env ps (file_index, response_text, self)
           | Some t \<Rightarrow>
               if t \<noteq> [] then process_parts env ps (file_index, response_text @ t, self)
               else process_parts env ps (file_index, response_text, self)))"

text \<open>
  The test at the head of the outer loop: \<open>None\<close> is \<open>continue\<close>; \<open>candidates[0]\<close> of an
  empty list raises \<open>IndexError\<close>.
\<close>

definition chunk_parts :: "chunk \<Rightarrow> exn + part list option" where
  "chunk_parts c =
     (case candidates c of
        None \<Rightarrow> Inr None
      | Some [] \<Rightarrow> Inl (IndexError (str ''list index out of range''))
      | Some (c0 # cs) \<Rightarrow>
          (case candidate_content c0 of
             None \<Rightarrow> Inr None
           | Some ct \<Rightarrow> Inr (parts ct)))"

fun process_chunks :: "image_env \<Rightarrow> chunk list \<Rightarrow> loop_state \<Rightarrow> exn option \<times> loop_state" where
  "process_chunks env [] st = (None, st)"
| "process_chunks env (c # cs) st =
     (case chunk_parts c of
        Inl e \<Rightarrow> (Some e, st)
      | Inr None \<Rightarrow> process_chunks env cs st
      | Inr (Some ps) \<Rightarrow>
          (case process_parts env ps st of
             (Some e, st') \<Rightarrow> (Some e, st')
           | (None, st') \<Rightarrow> process_chunks env cs st'))"

text \<open>
  \<open>ImageService.generate\<close>: the result or the exception, and \<open>self\<close> afterwards. The
  \<open>except\<close> clause logs and raises the same exception again. \<open>len\<close> of
  \<open>self.processed_image_data\<close> in the last log line raises \<open>TypeError\<close> when it is \<open>None\<close>.
\<close>

definition generate ::
  "image_env \<Rightarrow> image_service \<Rightarrow> bytes \<Rightarrow> pystr
     \<Rightarrow> (exn + bytes \<times> pystr option \<times> pystr) \<times> image_service" where
  "generate env self image_data mime =
     (let stream = gemini_stream env image_data mime in
      case process_chunks env (fst stream) (0, [], self) of
        (Some e, (file_index, response_text, self1)) \<Rightarrow> (Inl e, self1)
      | (None, (file_index, response_text, self1)) \<Rightarrow>
          (case snd stream of
             Some e \<Rightarrow> (Inl e, self1)
           | None \<Rightarrow>
               (let msg = (if response_text \<noteq> [] then strip response_text
                           else str ''Image processed successfully'');
                    self2 = self1\<lparr>message := Some msg\<rparr>
                in case processed_image_data self2 of
                     None \<Rightarrow>
                       (Inl (TypeError (str (''object of type '' @ CHR 0x27 # ''NoneType'')
                                        @ str (CHR 0x27 # '' has no len()''))), self2)
                   | Some d \<Rightarrow> (Inr (d, mime_type self2, msg), self2))))"

text \<open>
  \<open>ImageServiceServicer.ProcessImage\<close>, on the one \<open>ImageService\<close> the servicer made in
  its \<open>__init__\<close>: the response, the status set on the context, if any, and the service
  object afterwards.
\<close>

record process_image_request =
  request_image_data :: bytes
  request_mime_type :: pystr

record process_image_response =
  response_processed_image_data :: bytes
  response_mime_type :: pystr
  response_message :: pystr

definition ProcessImage ::
  "image_env \<Rightarrow> image_service \<Rightarrow> process_image_request
     \<Rightarrow> process_image_response \<times> (status_code \<times> pystr) option \<times> image_service" where
  "ProcessImage env image_service request =
     (case generate env image_service (request_image_data request) (request_mime_type request) of
        (Inr (processed_data, mt, msg), image_service') \<Rightarrow>
          (\<lparr>response_processed_image_data = processed_data,
            response_mime_type = (case mt of None \<Rightarrow> [] | Some m \<Rightarrow> m),
            response_message = msg\<rparr>, None, image_service')
      | (Inl e, image_service') \<Rightarrow>
          (\<lparr>response_processed_image_data = [],
            response_mime_type = [],
            response_message = str ''Error: '' @ str_exn e\<rparr>,
           Some (INTERNAL, str ''Image processing failed: '' @ str_exn e), image_service'))"

section \<open>Streams and example inputs the properties are stated on\<close>

text \<open>A chunk of the image model that carries one text part, and one that carries one image.\<close>

definition text_chunk :: "pystr \<Rightarrow> chunk" where
  "text_chunk t =
     \<lparr>candidates = Some [\<lparr>candidate_content =
        Some \<lparr>parts = Some [\<lparr>inline_data = None, part_text = Some t\<rparr>]\<rparr>\<rparr>]\<rparr>"

definition image_chunk :: "bytes \<Rightarrow> pystr \<Rightarrow> chunk" where
  "image_chunk d m =
     \<lparr>candidates = Some [\<lparr>candidate_content =
        Some \<lparr>parts = Some [\<lparr>inline_data = Some \<lparr>blob_data = Some d, blob_mime_type = Some m\<rparr>,
                               part_text = None\<rparr>]\<rparr>\<rparr>]\<rparr>"

text \<open>
  The binary payloads of a stream, in arrival order, each with the mime type declared
  with it: the parts the loop of \<open>generate\<close> treats as image data.
\<close>

definition chunk_images :: "chunk \<Rightarrow> (bytes \<times> pystr option) list" where
  "chunk_images c =
     (case chunk_parts c of Inr (Some ps) \<Rightarrow> List.map_filter image_of ps | _ \<Rightarrow> [])"

definition stream_images :: "chunk list \<Rightarrow> (bytes \<times> pystr option) list" where
  "stream_images chunks = concat (map chunk_images chunks)"

text \<open>The service object after the loop has stored the given payloads one after another.\<close>

definition stored :: "image_service \<Rightarrow> (bytes \<times> pystr option) list \<Rightarrow> image_service" where
  "stored self imgs =
     (if imgs = [] then self
      else self\<lparr>processed_image_data := Some (fst (last imgs)), mime_type := snd (last imgs)\<rparr>)"

text \<open>
  Example surroundings. \<open>two_images\<close>: the model answers with a PNG and then a JPEG.
  \<open>image_then_text\<close>: the model answers the input \<open>[1]\<close> with an image and every other
  input with the text \<open>done\<close>. In both every file write succeeds, and the extensions of
  PNG and JPEG are known. \<open>oversized_download\<close>: every URL serves a PNG of 10 MiB and one byte.
  \<open>failing_stub\<close>: the RPC to the SEO service fails.
\<close>

definition known_extension :: "pystr \<Rightarrow> pystr option" where
  "known_extension m =
     (if m = str ''image/png'' then Some (str ''.png'')
      else if m = str ''image/jpeg'' then Some (str ''.jpg'')
      else None)"

definition two_images :: image_env where
  "two_images =
     \<lparr>gemini_stream = (\<lambda>image_data mime.
         ([image_chunk [1] (str ''image/png''), image_chunk [2] (str ''image/jpeg'')], None)),
      guess_extension = known_extension,
      write_file = (\<lambda>name d. None)\<rparr>"

definition image_then_text :: image_env where
  "image_then_text =
     \<lparr>gemini_stream = (\<lambda>image_data mime.
         if image_data = [1] then ([image_chunk [170] (str ''image/png'')], None)
         else ([text_chunk (str ''done'')], None)),
      guess_extension = known_extension,
      write_file = (\<lambda>name d. None)\<rparr>"

definition oversized_download :: seo_env where
  "oversized_download =
     \<lparr>requests_get = (\<lambda>url. Inr \<lparr>content_type_header = Some (str ''image/png''),
                                content = replicate (10 * 1024 * 1024 + 1) 0\<rparr>),
      image_open = (\<lambda>b. None),
      generate_content_stream = (\<lambda>b m. ([], None)),
      recursion_budget = 990\<rparr>"

definition failing_stub :: agent_env where
  "failing_stub =
     \<lparr>stub_GenerateFromImageUrl = (\<lambda>url. Inl (RpcError (str ''StatusCode.UNAVAILABLE''))),
      response_str = (\<lambda>r. title r @ [10] @ description r)\<rparr>"

section \<open>Properties of the parser\<close>

lemmas eval_defs =
  str_def json_pattern_def lit_def title_patterns_def description_patterns_def quoted_def
  parse_gemini_response_def json_loads_def json_ws_def is_space_def strip_def
  strip_chars_def startswith_def cons_result_def backslash_def dict_get_def Let_def
  yes_no_def debug_response_def parse_failure_def split_def split1_def any_keyword_def
  title_keywords_def description_keywords_def lower_def lower_cp_def ascii_lower_def
  ignorecase_eq_def number_value_def int_digits_def INT_MAX_STR_DIGITS_def match_number_def
  match_int_def match_frac_def match_exp_def is_digit_def no_attribute_def after_colon_def

lemma json_strategy_nonempty:
  "json_strategy budget ms = Some (Inr (t, d)) \<Longrightarrow> t \<noteq> [] \<and> d \<noteq> []"
  by (induction ms) (auto split: decoded.splits sum.splits if_splits)

lemma exn_of_raise_not_abort: "exn_of_raise r \<noteq> Aborted code details"
  by (cases r) simp_all

lemma get_strip_not_abort: "get_strip v key \<noteq> Inl (Aborted code details)"
  by (cases "(v, key)" rule: get_strip.cases)
    (auto simp: no_attribute_def split: option.splits json.splits)

lemma json_strategy_not_abort:
  "json_strategy budget ms \<noteq> Some (Inl (Aborted code details))"
  by (induction ms)
    (auto split: decoded.splits sum.splits if_splits
      simp: exn_of_raise_not_abort get_strip_not_abort)

lemma json_strategy_skip:
  "list_all (\<lambda>m. json_strategy budget [m] = None) cs \<Longrightarrow>
     json_strategy budget (cs @ rest) = json_strategy budget rest"
  by (induction cs) (auto split: decoded.splits sum.splits if_splits)

lemma length_debug_response: "length (debug_response s) \<le> 503"
  by (simp add: debug_response_def str_def)

text \<open>
  C1. Whatever the response text, \<open>_parse_gemini_response\<close> returns a pair only when both
  the title and the description are non-empty; in every other case it ends in an
  exception (the \<open>Inl\<close> side), so a result with an empty field is never returned.
\<close>

theorem parse_never_partial:
  "parse_gemini_response budget response_text = Inr (t, d) \<Longrightarrow> t \<noteq> [] \<and> d \<noteq> []"
  unfolding parse_gemini_response_def Let_def
  by (auto split: option.splits if_splits prod.splits dest: json_strategy_nonempty)

theorem parse_never_partial_witness:
  \<open>parse_gemini_response 990
      (str ''Sure! {"title": " Red Shoe", "description": "A red shoe"} bye'')
     = Inr (str ''Red Shoe'', str ''A red shoe'')
   \<and> str ''Red Shoe'' \<noteq> [] \<and> str ''A red shoe'' \<noteq> []\<close>
proof -
  have h: \<open>parse_gemini_response 990
             (str ''Sure! {"title": " Red Shoe", "description": "A red shoe"} bye'')
           = Inr (str ''Red Shoe'', str ''A red shoe'')\<close>
    by (simp add: eval_defs)
  from parse_never_partial [OF h] h show ?thesis by simp
qed

text \<open>
  Exceptions that leave the parser from inside the loop, still without a result: a title
  that is not a string (\<open>AttributeError\<close> of \<open>strip\<close>), nesting beyond what the
  interpreter allows (\<open>RecursionError\<close> of \<open>json.loads\<close>), and an integer of more than
  4300 digits (\<open>ValueError\<close> of \<open>json.loads\<close>).
\<close>

lemma non_string_title_raises:
  \<open>parse_gemini_response 990 (str ''{"title": 5, "description": "Y"}'')
     = Inl (AttributeError (str (CHR 0x27 # ''int'') @ str (CHR 0x27 # '' object has no attribute '')
                            @ str (CHR 0x27 # ''strip'') @ str [CHR 0x27]))\<close>
  by (simp add: eval_defs)

lemma nesting_beyond_budget_raises:
  \<open>parse_gemini_response 1 (str ''{"title": [[1]], "description": "D"}'')
     = Inl (RecursionError
              (str ''maximum recursion depth exceeded while decoding a JSON array from a unicode string''))\<close>
  by (simp add: eval_defs)

lemma long_integer_raises:
  "number_value (49 # replicate 4300 49) r = Raised (Int_max_str_digits 4301)"
  by (simp add: number_value_def int_digits_def INT_MAX_STR_DIGITS_def is_digit_def
      list_all_iff)

text \<open>
  The structured-literal strategy dominates the later ones: when the first candidate the
  loop does not pass over is accepted by \<open>json.loads\<close> as an object whose title and
  description are strings that are non-empty once stripped, the parser returns these two
  stripped strings, whatever the later strategies would find.
\<close>

lemma first_parsed_candidate_wins:
  assumes "re_findall False json_pattern response_text = skipped @ candidate # rest"
    and "list_all (\<lambda>m. json_strategy budget [m] = None) skipped"
    and "json_loads budget candidate = Decoded (JObject pairs)"
    and "dict_get pairs (str ''title'') = Some (JString t)"
    and "dict_get pairs (str ''description'') = Some (JString d)"
    and "strip t \<noteq> []" and "strip d \<noteq> []"
  shows "parse_gemini_response budget response_text = Inr (strip t, strip d)"
proof -
  have "json_strategy budget (candidate # rest) = Some (Inr (strip t, strip d))"
    using assms(3-7) by simp
  with json_strategy_skip [OF assms(2)] assms(1)
  have "json_strategy budget (re_findall False json_pattern response_text)
          = Some (Inr (strip t, strip d))"
    by simp
  then show ?thesis by (simp add: parse_gemini_response_def)
qed

text \<open>A candidate that \<open>json.loads\<close> rejects is passed over, and the next one is taken.\<close>

lemma skipped_candidate_example:
  \<open>re_findall False json_pattern
      (str ''{oops "title" "description"} Sure: {"title": " Red Shoe", "description": "A red shoe"} bye'')
     = [str ''{oops "title" "description"}'',
        str ''{"title": " Red Shoe", "description": "A red shoe"}'']
   \<and> json_loads 990 (str ''{oops "title" "description"}'') = JSONDecodeError
   \<and> parse_gemini_response 990
        (str ''{oops "title" "description"} Sure: {"title": " Red Shoe", "description": "A red shoe"} bye'')
       = Inr (str ''Red Shoe'', str ''A red shoe'')\<close>
  by (simp add: eval_defs)

text \<open>
  How the pattern matches. A literal matches when the input starts with it. A lazy
  \<open>.*?\<close> in front of a literal stops at the first occurrence of the literal, provided the
  rest of the pattern matches behind it; the last \<open>.*?\<close> stops at the first closing brace.
\<close>

lemma length_str [simp]: "length (str w) = length w"
  by (simp add: str_def)

lemma rmatch_lit:
  "rmatch False (lit w @ ps) s =
     (if startswith s (str w)
      then (case rmatch False ps (drop (length w) s) of
              None \<Rightarrow> None | Some (m, g, r) \<Rightarrow> Some (str w @ m, g, r))
      else None)"
proof (induction w arbitrary: s)
  case Nil
  show ?case by (simp add: lit_def str_def startswith_def split: option.splits)
next
  case (Cons c w)
  have step: "lit (c # w) @ ps = One (Ch (of_char c)) # (lit w @ ps)"
    by (simp add: lit_def)
  show ?case
  proof (cases s)
    case Nil
    then show ?thesis by (simp add: step startswith_def str_def)
  next
    case (Cons x xs)
    then show ?thesis
      using Cons.IH [of xs]
      by (auto simp: step startswith_def str_def split: option.splits)
  qed
qed

lemma lazy_hit: "rmatch ic ps s = Some res \<Longrightarrow> rmatch ic (Lazy c # ps) s = Some res"
  by (cases s) auto

lemma lazy_brace:
  "125 \<notin> set x \<Longrightarrow>
     rmatch False [Lazy AnyCh, One (Ch 125)] (x @ 125 # post) = Some (x @ [125], [], post)"
  by (induction x) auto

lemma startswith_before_literal:
  assumes "startswith ((x # u) @ str w @ rest) (str w)"
  shows "startswith ((x # u) @ butlast (str w)) (str w)"
proof (cases "w = []")
  case True
  then show ?thesis by (simp add: startswith_def str_def)
next
  case False
  define A where "A = (x # u) @ butlast (str w)"
  have "str w \<noteq> []" using False by (simp add: str_def)
  then have split_w: "str w = butlast (str w) @ [last (str w)]" by simp
  have eq: "(x # u) @ str w @ rest = A @ (last (str w) # rest)"
    unfolding A_def by (subst split_w) simp
  have "length w \<le> length A"
    using False by (simp add: A_def)
  then have "take (length w) (A @ (last (str w) # rest)) = take (length w) A"
    by simp
  then have "take (length w) ((x # u) @ str w @ rest) = take (length w) A"
    by (simp only: eq)
  with assms show ?thesis
    unfolding A_def [symmetric] by (simp only: startswith_def length_str)
qed

lemma lazy_lit_first:
  assumes cont: "rmatch False ps (c @ 125 # post) = Some (c @ [125], [], post)"
  shows "\<not> contains (str w) (u @ butlast (str w)) \<Longrightarrow>
           rmatch False (Lazy AnyCh # lit w @ ps) (u @ str w @ c @ 125 # post)
             = Some (u @ str w @ c @ [125], [], post)"
proof (induction u)
  case Nil
  have "rmatch False (lit w @ ps) (str w @ c @ 125 # post) = Some (str w @ c @ [125], [], post)"
    using cont by (simp add: rmatch_lit startswith_def)
  then have "rmatch False (Lazy AnyCh # lit w @ ps) (str w @ c @ 125 # post)
               = Some (str w @ c @ [125], [], post)"
    by (rule lazy_hit)
  then show ?case by simp
next
  case (Cons x u)
  from Cons.prems have here: "\<not> startswith ((x # u) @ butlast (str w)) (str w)"
    and later: "\<not> contains (str w) (u @ butlast (str w))"
    by simp_all
  from here have "\<not> startswith ((x # u) @ str w @ c @ 125 # post) (str w)"
    using startswith_before_literal by blast
  then have "rmatch False (lit w @ ps) ((x # u) @ str w @ c @ 125 # post) = None"
    by (simp only: rmatch_lit if_False)
  then have miss: "rmatch False (lit w @ ps) (x # (u @ str w @ c @ 125 # post)) = None"
    by simp
  from Cons.IH [OF later] miss show ?case by simp
qed

lemma json_pattern_on_object:
  assumes first_title: "\<not> contains (str ''\"title\"'') (a @ butlast (str ''\"title\"''))"
    and first_description:
      "\<not> contains (str ''\"description\"'') (b @ butlast (str ''\"description\"''))"
    and no_brace: "125 \<notin> set c"
  shows "rmatch False json_pattern
           (123 # a @ str ''\"title\"'' @ b @ str ''\"description\"'' @ c @ 125 # post)
         = Some (123 # a @ str ''\"title\"'' @ b @ str ''\"description\"'' @ c @ [125], [], post)"
proof -
  let ?ps3 = "[Lazy AnyCh, One (Ch 125)]"
  let ?ps2 = "Lazy AnyCh # lit ''\"description\"'' @ ?ps3"
  define rest where "rest = b @ str ''\"description\"'' @ c"
  have c3: "rmatch False ?ps3 (c @ 125 # post) = Some (c @ [125], [], post)"
    by (rule lazy_brace [OF no_brace])
  have "rmatch False ?ps2 (b @ str ''\"description\"'' @ c @ 125 # post)
          = Some (b @ str ''\"description\"'' @ c @ [125], [], post)"
    by (rule lazy_lit_first [OF c3 first_description])
  then have c2: "rmatch False ?ps2 (rest @ 125 # post) = Some (rest @ [125], [], post)"
    by (simp add: rest_def)
  have "rmatch False (Lazy AnyCh # lit ''\"title\"'' @ ?ps2)
          (a @ str ''\"title\"'' @ rest @ 125 # post)
        = Some (a @ str ''\"title\"'' @ rest @ [125], [], post)"
    by (rule lazy_lit_first [OF c2 first_title])
  then show ?thesis
    by (simp add: rest_def json_pattern_def lit_def [of "''{''"] lit_def [of "''}''"])
qed

lemma findall_skips_prose:
  "123 \<notin> set pre \<Longrightarrow> s \<noteq> [] \<Longrightarrow>
     re_findall False json_pattern (pre @ s) = re_findall False json_pattern s"
  by (induction pre) (auto simp: json_pattern_def lit_def)

text \<open>
  C2, as amended. Take a text \<open>pre @ obj @ post\<close> in which the prose \<open>pre\<close> has no
  opening brace and \<open>obj\<close> is an object literal that \<open>json.loads\<close> accepts, with
  \<open>"title"\<close> before \<open>"description"\<close>: written from the first \<open>"title"\<close> in it and the first
  \<open>"description"\<close> behind that one, \<open>obj\<close> is \<open>{ a "title" b "description" c }\<close>, and \<open>c\<close>
  has no closing brace (\<open>a\<close> and \<open>b\<close> may hold braces and nested objects). When the
  title and the description of \<open>obj\<close> are strings that are non-empty once stripped, the
  parser returns exactly these two values, stripped of surrounding white space, whatever
  \<open>pre\<close> and \<open>post\<close> are: the structured-literal strategy succeeds on \<open>obj\<close> and the later
  strategies are not consulted.
\<close>

theorem structured_literal_in_prose:
  assumes prose: "123 \<notin> set pre"
    and obj: "obj = 123 # a @ str ''\"title\"'' @ b @ str ''\"description\"'' @ c @ [125]"
    and first_title: "\<not> contains (str ''\"title\"'') (a @ butlast (str ''\"title\"''))"
    and first_description:
      "\<not> contains (str ''\"description\"'') (b @ butlast (str ''\"description\"''))"
    and no_brace: "125 \<notin> set c"
    and loads: "json_loads budget obj = Decoded (JObject pairs)"
    and t: "dict_get pairs (str ''title'') = Some (JString t)"
    and d: "dict_get pairs (str ''description'') = Some (JString d)"
    and nonempty: "strip t \<noteq> []" "strip d \<noteq> []"
  shows "parse_gemini_response budget (pre @ obj @ post) = Inr (strip t, strip d)"
proof -
  have shape: "obj @ post
                 = 123 # a @ str ''\"title\"'' @ b @ str ''\"description\"'' @ c @ 125 # post"
    by (simp add: obj)
  have "rmatch False json_pattern (obj @ post) = Some (obj, [], post)"
    unfolding shape
    using json_pattern_on_object [OF first_title first_description no_brace, of post]
    by (simp add: obj)
  moreover obtain x xs where cons: "obj @ post = x # xs"
    by (simp add: shape)
  ultimately have "re_findall False json_pattern (obj @ post)
                     = obj # re_findall False json_pattern (drop (length obj - 1) xs)"
    by simp
  moreover have "re_findall False json_pattern (pre @ obj @ post)
                   = re_findall False json_pattern (obj @ post)"
    using prose by (intro findall_skips_prose) (simp_all add: obj)
  ultimately have "re_findall False json_pattern (pre @ obj @ post)
                     = [] @ obj # re_findall False json_pattern (drop (length obj - 1) xs)"
    by simp
  from first_parsed_candidate_wins [OF this _ loads t d nonempty] show ?thesis by simp
qed

theorem structured_literal_in_prose_witness:
  \<open>123 \<notin> set (str ''Sure! '')
   \<and> \<not> contains (str ''"title"'') ([] @ butlast (str ''"title"''))
   \<and> \<not> contains (str ''"description"'')
          (str '': "A}", "x": {"y": 1}, '' @ butlast (str ''"description"''))
   \<and> 125 \<notin> set (str '': " B"'')
   \<and> json_loads 990
        (123 # [] @ str ''"title"'' @ str '': "A}", "x": {"y": 1}, ''
           @ str ''"description"'' @ str '': " B"'' @ [125])
       = Decoded (JObject [(str ''title'', JString (str ''A}'')),
                           (str ''x'', JObject [(str ''y'', JNumber (str ''1''))]),
                           (str ''description'', JString (str '' B''))])
   \<and> strip (str ''A}'') = str ''A}''
   \<and> strip (str '' B'') = str ''B''
   \<and> parse_gemini_response 990
        (str ''Sure! ''
         @ (123 # [] @ str ''"title"'' @ str '': "A}", "x": {"y": 1}, ''
              @ str ''"description"'' @ str '': " B"'' @ [125])
         @ str '' bye'')
       = Inr (str ''A}'', str ''B'')\<close>
proof -
  let ?obj = \<open>123 # [] @ str ''"title"'' @ str '': "A}", "x": {"y": 1}, ''
                @ str ''"description"'' @ str '': " B"'' @ [125]\<close>
  let ?pairs = "[(str ''title'', JString (str ''A}'')),
                 (str ''x'', JObject [(str ''y'', JNumber (str ''1''))]),
                 (str ''description'', JString (str '' B''))]"
  have a: "123 \<notin> set (str ''Sure! '')"
    by (simp add: str_def)
  have b1: \<open>\<not> contains (str ''"title"'') ([] @ butlast (str ''"title"''))\<close>
    by (simp add: str_def startswith_def)
  have b2: \<open>\<not> contains (str ''"description"'')
               (str '': "A}", "x": {"y": 1}, '' @ butlast (str ''"description"''))\<close>
    by (simp add: str_def startswith_def)
  have b3: \<open>125 \<notin> set (str '': " B"'')\<close>
    by (simp add: str_def)
  have c: "json_loads 990 ?obj = Decoded (JObject ?pairs)"
    by (simp add: eval_defs)
  have d: "dict_get ?pairs (str ''title'') = Some (JString (str ''A}''))"
    by (simp add: eval_defs)
  have e: "dict_get ?pairs (str ''description'') = Some (JString (str '' B''))"
    by (simp add: eval_defs)
  have f: "strip (str ''A}'') = str ''A}''" "strip (str '' B'') = str ''B''"
    by (simp_all add: eval_defs)
  have g: "strip (str ''A}'') \<noteq> []" "strip (str '' B'') \<noteq> []"
    unfolding f by (simp_all add: str_def)
  from structured_literal_in_prose [OF a refl b1 b2 b3 c d e g, of "str '' bye''"] a b1 b2 b3 c f
  show ?thesis by simp
qed

text \<open>
  C2, as stated, fails, and each restriction of the amended claim is needed. In every
  text below the only object literal that \<open>json.loads\<close> accepts has a non-empty title
  and a non-empty description.
  \<^item> Key order: with the description in front of the title the pattern finds no
    candidate, and the key-pattern strategy takes the title \<open>X\<close> from the prose in front
    of the object, whose title is \<open>T\<close>.
  \<^item> An opening brace in the prose: the one candidate starts at that brace and is not
    JSON; the title is again \<open>X\<close> from the prose.
  \<^item> A closing brace behind \<open>"description"\<close>, here inside the description: the candidate
    ends at that brace and is not JSON; the title is again \<open>X\<close> from the prose.
  \<^item> White space around a value: the title \<open> T\<close> is returned as \<open>T\<close>.
  \<^item> A value of white space only: the title is a blank, non-empty; the strategy passes
    over the object, and the line scan takes everything behind the first colon as title.
\<close>

theorem structured_literal_counterexample:
  \<open>json_loads 990 (str ''{"description": "D", "title": "T"}'')
     = Decoded (JObject [(str ''description'', JString (str ''D'')),
                         (str ''title'', JString (str ''T''))])
   \<and> re_findall False json_pattern (str ''"title": "X" {"description": "D", "title": "T"}'') = []
   \<and> parse_gemini_response 990 (str ''"title": "X" {"description": "D", "title": "T"}'')
       = Inr (str ''X'', str ''D'')
   \<and> parse_gemini_response 990 (str ''{ "title": "X" {"title": "T", "description": "D"}'')
       = Inr (str ''X'', str ''D'')
   \<and> json_loads 990 (str ''{"title": "T", "description": "a}b"}'')
       = Decoded (JObject [(str ''title'', JString (str ''T'')),
                           (str ''description'', JString (str ''a}b''))])
   \<and> parse_gemini_response 990 (str ''"title": "X" {"title": "T", "description": "a}b"}'')
       = Inr (str ''X'', str ''a}b'')
   \<and> json_loads 990 (str ''{"title": " T", "description": "D"}'')
       = Decoded (JObject [(str ''title'', JString (str '' T'')),
                           (str ''description'', JString (str ''D''))])
   \<and> parse_gemini_response 990 (str ''{"title": " T", "description": "D"}'')
       = Inr (str ''T'', str ''D'')
   \<and> json_loads 990 (str ''{"title": " ", "description": "D"}'')
       = Decoded (JObject [(str ''title'', JString (str '' '')),
                           (str ''description'', JString (str ''D''))])
   \<and> parse_gemini_response 990 (str ''{"title": " ", "description": "D"}'')
       = Inr (str '' ", "description": "D"}'', str ''D'')\<close>
  by (simp add: eval_defs)

text \<open>
  C6. When the parser gives up, the details of its abort end in a preview of the response
  text: the text itself when it has at most 500 code points, and otherwise its first 500
  code points followed by three dots. The preview has at most 503 code points and the
  whole message at most 595, however long the response text is.
\<close>

theorem parse_failure_preview:
  assumes "parse_gemini_response budget response_text = Inl (Aborted code details)"
  shows "(\<exists>head. details = head @ debug_response response_text \<and> length head \<le> 92)
         \<and> debug_response response_text =
             (if length response_text \<le> 500 then response_text
              else take 500 response_text @ str ''...'')
         \<and> length (debug_response response_text) \<le> 503
         \<and> length details \<le> 595"
proof -
  obtain t d where fail: "parse_failure t d response_text = Aborted code details"
    and empty: "t = [] \<or> d = []"
    using assms unfolding parse_gemini_response_def Let_def
    by (auto split: option.splits if_splits prod.splits simp: json_strategy_not_abort)
  define head where
    "head = str ''Could not parse Gemini response. Found title: '' @ yes_no t
        @ str '', Found description: '' @ yes_no d @ str ''. Response preview: ''"
  have details: "details = head @ debug_response response_text"
    using fail by (simp add: parse_failure_def head_def)
  have "length head \<le> 92"
    using empty by (auto simp: head_def yes_no_def str_def)
  moreover have "length (debug_response response_text) \<le> 503"
    by (rule length_debug_response)
  moreover have "debug_response response_text =
             (if length response_text \<le> 500 then response_text
              else take 500 response_text @ str ''...'')"
    by (simp add: debug_response_def)
  ultimately show ?thesis using details by auto
qed

theorem parse_failure_preview_witness:
  "parse_gemini_response 990 (str ''hello'') =
     Inl (Aborted INTERNAL (str ''Could not parse Gemini response. Found title: No, Found description: No. Response preview: hello''))
   \<and> debug_response (str ''hello'') = str ''hello''
   \<and> length (str ''Could not parse Gemini response. Found title: No, Found description: No. Response preview: hello'') \<le> 595"
proof -
  have h: "parse_gemini_response 990 (str ''hello'') =
     Inl (Aborted INTERNAL (str ''Could not parse Gemini response. Found title: No, Found description: No. Response preview: hello''))"
    by (simp add: eval_defs)
  from parse_failure_preview [OF h] h show ?thesis by (simp add: str_def)
qed

section \<open>Properties of the stream loops\<close>

lemma add_chunks_text: "add_chunks acc (map Some ts) = Inr (acc @ concat ts)"
  by (induction ts arbitrary: acc) simp_all

lemma process_chunks_text:
  "process_chunks env (map text_chunk ts) (file_index, acc, self)
     = (None, (file_index, acc @ concat ts, self))"
  by (induction ts arbitrary: acc) (simp_all add: text_chunk_def chunk_parts_def image_of_def)

text \<open>
  C5. For every finite sequence of text chunks, the text buffer at the end of the loop is
  the concatenation of the chunks' texts in arrival order: in the two handlers of the SEO
  service (\<open>response_text += chunk.text\<close>) and in the loop of the image service, which
  changes nothing else. The chunks \<open>Hel\<close>, \<open>lo, \<close>, \<open>world\<close> give \<open>Hello, world\<close>.
\<close>

theorem text_buffer_concat:
  "read_stream (map Some ts, None) = Inr (concat ts)
   \<and> process_chunks env (map text_chunk ts) (file_index, [], self)
       = (None, (file_index, concat ts, self))
   \<and> read_stream (map Some [str ''Hel'', str ''lo, '', str ''world''], None)
       = Inr (str ''Hello, world'')"
  by (simp add: read_stream_def add_chunks_text process_chunks_text str_def)

lemma stored_append: "stored (stored self xs) ys = stored self (xs @ ys)"
  by (simp add: stored_def)

lemma map_filter_Cons:
  "List.map_filter f (x # xs) =
     (case f x of None \<Rightarrow> List.map_filter f xs | Some y \<Rightarrow> y # List.map_filter f xs)"
  by (simp add: List.map_filter_def split: option.splits)

lemma process_parts_stored:
  "process_parts env ps (fi, rt, self) = (None, (fi', rt', self'))
     \<Longrightarrow> self' = stored self (List.map_filter image_of ps)"
proof (induction ps arbitrary: fi rt self)
  case Nil
  then show ?case by (simp add: stored_def List.map_filter_def)
next
  case (Cons p ps)
  show ?case
  proof (cases "image_of p")
    case None
    with Cons.prems
    have "\<exists>rt0. process_parts env ps (fi, rt0, self) = (None, (fi', rt', self'))"
      by (auto split: option.splits if_splits)
    then show ?thesis using Cons.IH None by (auto simp: map_filter_Cons)
  next
    case (Some im)
    obtain d declared where im: "im = (d, declared)" by (cases im)
    with Cons.prems Some obtain m where m: "declared = Some m"
      and rest: "process_parts env ps
                   (fi + 1, rt, self\<lparr>processed_image_data := Some d, mime_type := Some m\<rparr>)
                   = (None, (fi', rt', self'))"
      by (auto simp: Let_def split: option.splits)
    from Cons.IH [OF rest]
    have "self' = stored (stored self [(d, Some m)]) (List.map_filter image_of ps)"
      by (simp add: stored_def)
    then show ?thesis using Some im m by (simp add: map_filter_Cons stored_append)
  qed
qed

lemma process_chunks_stored:
  "process_chunks env cs (fi, rt, self) = (None, (fi', rt', self'))
     \<Longrightarrow> self' = stored self (stream_images cs)"
proof (induction cs arbitrary: fi rt self)
  case Nil
  then show ?case by (simp add: stored_def stream_images_def)
next
  case (Cons c cs)
  show ?case
  proof (cases "chunk_parts c")
    case (Inl e)
    with Cons.prems show ?thesis by simp
  next
    case (Inr po)
    show ?thesis
    proof (cases po)
      case None
      with Inr Cons.prems Cons.IH show ?thesis
        by (simp add: stream_images_def chunk_images_def)
    next
      case (Some ps)
      with Inr Cons.prems obtain fi1 rt1 self1 where
        p: "process_parts env ps (fi, rt, self) = (None, (fi1, rt1, self1))"
        and r: "process_chunks env cs (fi1, rt1, self1) = (None, (fi', rt', self'))"
        by (auto split: prod.splits option.splits)
      from process_parts_stored [OF p] Cons.IH [OF r]
      have "self' = stored self (List.map_filter image_of ps @ stream_images cs)"
        by (simp add: stored_append)
      then show ?thesis using Inr Some
        by (simp add: stream_images_def chunk_images_def)
    qed
  qed
qed

lemma process_parts_no_image:
  "List.map_filter image_of ps = [] \<Longrightarrow> fst (process_parts env ps (fi, rt, self)) = None"
  by (induction ps arbitrary: rt) (auto simp: map_filter_Cons split: option.splits)

lemma process_chunks_no_image:
  "stream_images cs = [] \<Longrightarrow> list_all (\<lambda>c. candidates c \<noteq> Some []) cs
     \<Longrightarrow> fst (process_chunks env cs (fi, rt, self)) = None"
proof (induction cs arbitrary: fi rt self)
  case Nil
  then show ?case by simp
next
  case (Cons c cs)
  from Cons.prems
  have rest: "stream_images cs = []" "list_all (\<lambda>c. candidates c \<noteq> Some []) cs"
    and c: "chunk_images c = []" "candidates c \<noteq> Some []"
    by (simp_all add: stream_images_def)
  show ?case
  proof (cases "chunk_parts c")
    case (Inl e)
    with c(2) show ?thesis
      by (auto simp: chunk_parts_def split: option.splits list.splits)
  next
    case (Inr po)
    show ?thesis
    proof (cases po)
      case None
      with Inr Cons.IH [OF rest] show ?thesis by simp
    next
      case (Some ps)
      with Inr c(1) have "List.map_filter image_of ps = []"
        by (simp add: chunk_images_def)
      from process_parts_no_image [OF this, of env fi rt self]
      obtain st' where "process_parts env ps (fi, rt, self) = (None, st')"
        by (cases "process_parts env ps (fi, rt, self)") auto
      moreover obtain fi1 rt1 self1 where "st' = (fi1, rt1, self1)" by (cases st')
      ultimately show ?thesis using Inr Some Cons.IH [OF rest, of fi1 rt1 self1] by simp
    qed
  qed
qed

text \<open>
  C3, as amended. When \<open>generate\<close> returns and the stream held binary payloads, the
  returned data and the returned mime type are those of the last payload of the stream:
  the mime type is the one declared by the last binary chunk, the chunk whose payload is
  retained.
\<close>

theorem mime_type_of_last_image:
  assumes "fst (generate env self image_data mime) = Inr (d, mt, msg)"
    and "stream_images (fst (gemini_stream env image_data mime)) \<noteq> []"
  shows "(d, mt) = last (stream_images (fst (gemini_stream env image_data mime)))"
proof -
  let ?cs = "fst (gemini_stream env image_data mime)"
  obtain fi rt self1 where
    run: "process_chunks env ?cs (0, [], self) = (None, (fi, rt, self1))"
    and d: "processed_image_data self1 = Some d" and mt: "mime_type self1 = mt"
    using assms(1) unfolding generate_def Let_def
    by (auto split: prod.splits option.splits)
  from process_chunks_stored [OF run] assms(2) d mt show ?thesis
    by (simp add: stored_def prod_eq_iff)
qed

theorem mime_type_of_last_image_witness:
  "fst (generate two_images ImageService_init [] (str ''image/jpeg''))
     = Inr ([2], Some (str ''image/jpeg''), str ''Image processed successfully'')
   \<and> stream_images (fst (gemini_stream two_images [] (str ''image/jpeg''))) \<noteq> []
   \<and> ([2], Some (str ''image/jpeg''))
       = last (stream_images (fst (gemini_stream two_images [] (str ''image/jpeg''))))"
proof -
  have h: "fst (generate two_images ImageService_init [] (str ''image/jpeg''))
     = Inr ([2], Some (str ''image/jpeg''), str ''Image processed successfully'')"
    by (simp add: Let_def generate_def two_images_def image_chunk_def chunk_parts_def
        image_of_def ImageService_init_def)
  have g: "stream_images (fst (gemini_stream two_images [] (str ''image/jpeg''))) \<noteq> []"
    by (simp add: two_images_def stream_images_def chunk_images_def chunk_parts_def
        image_chunk_def image_of_def List.map_filter_def)
  from mime_type_of_last_image [OF h g] h g show ?thesis by blast
qed

text \<open>
  C3, as stated, fails. The stream of \<open>two_images\<close> holds two binary chunks, the first
  declaring \<open>image/png\<close> and the second \<open>image/jpeg\<close>; the result carries \<open>image/jpeg\<close>,
  not the mime type of the first.
\<close>

theorem mime_type_first_counterexample:
  "stream_images (fst (gemini_stream two_images [] (str ''image/jpeg'')))
     = [([1], Some (str ''image/png'')), ([2], Some (str ''image/jpeg''))]
   \<and> fst (generate two_images ImageService_init [] (str ''image/jpeg''))
     = Inr ([2], Some (str ''image/jpeg''), str ''Image processed successfully'')
   \<and> str ''image/jpeg'' \<noteq> str ''image/png''"
  by (simp add: Let_def generate_def two_images_def image_chunk_def chunk_parts_def
      image_of_def ImageService_init_def stream_images_def chunk_images_def
      List.map_filter_def str_def)

text \<open>
  C4. Two requests on one service object are not independent. The request whose stream is
  the text \<open>done\<close> fails on a fresh service (no image data, \<open>TypeError\<close>, an empty response
  with status INTERNAL); after a request that produced an image, the same request
  succeeds and returns the image and the mime type of the earlier request.
\<close>

theorem stale_image_on_reuse:
  "ProcessImage image_then_text ImageService_init
       \<lparr>request_image_data = [2], request_mime_type = str ''image/jpeg''\<rparr>
     = (\<lparr>response_processed_image_data = [], response_mime_type = [],
         response_message = str ''Error: '' @ str (''object of type '' @ CHR 0x27 # ''NoneType'')
                              @ str (CHR 0x27 # '' has no len()'')\<rparr>,
        Some (INTERNAL, str ''Image processing failed: ''
                          @ str (''object of type '' @ CHR 0x27 # ''NoneType'')
                          @ str (CHR 0x27 # '' has no len()'')),
        \<lparr>processed_image_data = None, mime_type = None, message = Some (str ''done'')\<rparr>)
   \<and> fst (ProcessImage image_then_text
        (snd (snd (ProcessImage image_then_text ImageService_init
                     \<lparr>request_image_data = [1], request_mime_type = str ''image/jpeg''\<rparr>)))
        \<lparr>request_image_data = [2], request_mime_type = str ''image/jpeg''\<rparr>)
     = \<lparr>response_processed_image_data = [170], response_mime_type = str ''image/png'',
        response_message = str ''done''\<rparr>"
  by (simp add: Let_def ProcessImage_def generate_def image_then_text_def image_chunk_def
      text_chunk_def chunk_parts_def image_of_def ImageService_init_def strip_def
      strip_chars_def is_space_def str_def)

text \<open>
  C10. On a freshly constructed image service, a stream without any binary payload
  never lets \<open>generate\<close> return: it ends in an exception, and when the stream itself
  completes (no exception from the transport, no chunk with an empty candidate list) the
  exception is the \<open>TypeError\<close> of \<open>len(None)\<close> in the last log line.
\<close>

theorem fresh_service_needs_image:
  assumes "stream_images (fst (gemini_stream env image_data mime)) = []"
  shows "(\<exists>e. fst (generate env ImageService_init image_data mime) = Inl e)
         \<and> (snd (gemini_stream env image_data mime) = None
              \<and> list_all (\<lambda>c. candidates c \<noteq> Some []) (fst (gemini_stream env image_data mime))
            \<longrightarrow> fst (generate env ImageService_init image_data mime)
                  = Inl (TypeError (str (''object of type '' @ CHR 0x27 # ''NoneType'')
                                    @ str (CHR 0x27 # '' has no len()''))))"
proof -
  let ?cs = "fst (gemini_stream env image_data mime)"
  obtain eo fi rt self1 where
    run: "process_chunks env ?cs (0, [], ImageService_init) = (eo, (fi, rt, self1))"
    by (metis prod_cases3)
  have keep: "eo = None \<Longrightarrow> processed_image_data self1 = None"
    using process_chunks_stored [of env ?cs 0 "[]" ImageService_init fi rt self1] run assms
    by (simp add: stored_def ImageService_init_def)
  have first: "\<exists>e. fst (generate env ImageService_init image_data mime) = Inl e"
    using run keep unfolding generate_def Let_def
    by (cases eo; cases "snd (gemini_stream env image_data mime)") auto
  have second: "fst (generate env ImageService_init image_data mime)
                  = Inl (TypeError (str (''object of type '' @ CHR 0x27 # ''NoneType'')
                                    @ str (CHR 0x27 # '' has no len()'')))"
    if "snd (gemini_stream env image_data mime) = None"
      and "list_all (\<lambda>c. candidates c \<noteq> Some []) ?cs"
  proof -
    from process_chunks_no_image [OF assms that(2), of env 0 "[]" ImageService_init] run
    have "eo = None" by simp
    with run keep that(1) show ?thesis
      unfolding generate_def Let_def by simp
  qed
  from first second show ?thesis by blast
qed

theorem fresh_service_needs_image_witness:
  "stream_images (fst (gemini_stream image_then_text [2] (str ''image/jpeg''))) = []
   \<and> snd (gemini_stream image_then_text [2] (str ''image/jpeg'')) = None
   \<and> list_all (\<lambda>c. candidates c \<noteq> Some [])
        (fst (gemini_stream image_then_text [2] (str ''image/jpeg'')))
   \<and> fst (generate image_then_text ImageService_init [2] (str ''image/jpeg''))
       = Inl (TypeError (str (''object of type '' @ CHR 0x27 # ''NoneType'')
                         @ str (CHR 0x27 # '' has no len()'')))"
proof -
  have h: "stream_images (fst (gemini_stream image_then_text [2] (str ''image/jpeg''))) = []"
    by (simp add: image_then_text_def stream_images_def chunk_images_def chunk_parts_def
        text_chunk_def image_of_def List.map_filter_def)
  have g: "snd (gemini_stream image_then_text [2] (str ''image/jpeg'')) = None
     \<and> list_all (\<lambda>c. candidates c \<noteq> Some [])
          (fst (gemini_stream image_then_text [2] (str ''image/jpeg'')))"
    by (simp add: image_then_text_def text_chunk_def)
  from fresh_service_needs_image [OF h] g h show ?thesis by blast
qed

section \<open>Properties of the tool call\<close>

text \<open>
  The upload handler makes the size check outside any \<open>try\<close> block: its abort leaves the
  handler with the status and the message given to it.
\<close>

lemma upload_too_large_reported:
  assumes "validate_image (filename request) (content_type request)"
    and "length (request_image request) > 10 * 1024 * 1024"
  shows "GenerateFromImage env request
           = (Inl (Aborted INVALID_ARGUMENT
                      (str ''Resim dosyas'' @ [305, 32, 231] @ str ''ok b'' @ [252, 121, 252, 107]
                       @ str ''. Maksimum 10MB desteklenir.'')), [])"
  using assms by (simp add: GenerateFromImage_def MAX_IMAGE_BYTES_def Let_def)

text \<open>
  C7. A download of more than 10 MiB with an image content type ends the URL handler
  before any call to the model: the only outside call made is the download. The handler
  does not end with the abort of the size check, though: that abort is raised inside the
  \<open>try\<close> block, the \<open>except Exception\<close> clause of the same block catches it and aborts
  again, and the call ends with status INTERNAL and the details \<open>Unexpected error: \<close>.
\<close>

theorem oversized_download_masked:
  assumes "image_url \<noteq> []"
    and "requests_get env image_url = Inr response"
    and "startswith (case content_type_header response of None \<Rightarrow> [] | Some v \<Rightarrow> v)
           (str ''image/'')"
    and "length (content response) > 10 * 1024 * 1024"
  shows "GenerateFromImageUrl env image_url
           = (Inl (Aborted INTERNAL (str ''Unexpected error: '')), [Call_requests_get image_url])"
  using assms
  by (simp add: GenerateFromImageUrl_def download_image_def download_except_def Let_def
      MAX_IMAGE_BYTES_def)

theorem oversized_download_masked_witness:
  "str ''http://x/img.png'' \<noteq> []
   \<and> requests_get oversized_download (str ''http://x/img.png'')
       = Inr \<lparr>content_type_header = Some (str ''image/png''),
              content = replicate (10 * 1024 * 1024 + 1) 0\<rparr>
   \<and> length (replicate (10 * 1024 * 1024 + 1) (0 :: 8 word)) > 10 * 1024 * 1024
   \<and> GenerateFromImageUrl oversized_download (str ''http://x/img.png'')
       = (Inl (Aborted INTERNAL (str ''Unexpected error: '')),
          [Call_requests_get (str ''http://x/img.png'')])"
proof -
  let ?response = "\<lparr>content_type_header = Some (str ''image/png''),
                    content = replicate (10 * 1024 * 1024 + 1) (0 :: 8 word)\<rparr>"
  have a: "str ''http://x/img.png'' \<noteq> []" by (simp add: str_def)
  have b: "requests_get oversized_download (str ''http://x/img.png'') = Inr ?response"
    by (simp add: oversized_download_def)
  have c: "startswith (case content_type_header ?response of None \<Rightarrow> [] | Some v \<Rightarrow> v)
             (str ''image/'')"
    by (simp add: startswith_def str_def)
  have d: "length (content ?response) > 10 * 1024 * 1024"
    by simp
  from oversized_download_masked [OF a b c d] a b show ?thesis by simp
qed

text \<open>
  C8. \<open>SEOAnalysisTool._run\<close> never raises: whatever the call to the SEO service does, the
  tool returns a string, and when the call raised an exception the string is
  \<open>Error analyzing image URL: \<close> followed by the text of the exception.
\<close>

theorem tool_never_raises:
  "(\<exists>s. SEOAnalysisTool_run env url = Inr s)
   \<and> (\<forall>e. stub_GenerateFromImageUrl env url = Inl e \<longrightarrow>
          SEOAnalysisTool_run env url = Inr (str ''Error analyzing image URL: '' @ str_exn e))"
  by (auto simp: SEOAnalysisTool_run_def seo_analysis_def str_tool_value_def split: sum.splits)

theorem tool_never_raises_witness:
  "stub_GenerateFromImageUrl failing_stub (str ''http://x/img.jpg'')
     = Inl (RpcError (str ''StatusCode.UNAVAILABLE''))
   \<and> SEOAnalysisTool_run failing_stub (str ''http://x/img.jpg'')
       = Inr (str ''Error analyzing image URL: StatusCode.UNAVAILABLE'')"
proof -
  have h: "stub_GenerateFromImageUrl failing_stub (str ''http://x/img.jpg'')
             = Inl (RpcError (str ''StatusCode.UNAVAILABLE''))"
    by (simp add: failing_stub_def)
  from tool_never_raises [of failing_stub "str ''http://x/img.jpg''"] h show ?thesis
    by (simp add: str_def)
qed

end
